theory Spec2Isabelle
  imports Main "HOL-Library.Word"
begin

section \<open>Strings and regular expressions of the source\<close>

text \<open>
  A JavaScript string is a sequence of UTF-16 code units; a code unit is modelled as a
  natural number. \<open>str\<close> turns an ASCII literal of the source into such a sequence.
\<close>

type_synonym jsstring = "nat list"

definition str :: "string \<Rightarrow> jsstring" where
  "str s = map of_char s"

text \<open>
  The character classes of the two regular expressions of \<^verbatim>\<open>index.js\<close>. Neither
  expression has the \<^verbatim>\<open>u\<close> flag, so \<^verbatim>\<open>\w\<close> is \<^verbatim>\<open>[A-Za-z0-9_]\<close> and
  \<^verbatim>\<open>\s\<close> is the white space and line terminators of ECMAScript: TAB, LF, VT, FF, CR,
  SPACE, U+00A0, U+1680, U+2000 to U+200A, U+2028, U+2029, U+202F, U+205F, U+3000, U+FEFF.
\<close>

definition is_word :: "nat \<Rightarrow> bool" where
  "is_word c = ((48 \<le> c \<and> c \<le> 57) \<or> (65 \<le> c \<and> c \<le> 90) \<or> c = 95 \<or> (97 \<le> c \<and> c \<le> 122))"

definition is_space :: "nat \<Rightarrow> bool" where
  "is_space c = ((9 \<le> c \<and> c \<le> 13) \<or> c = 32 \<or> c = 160 \<or> c = 5760 \<or> (8192 \<le> c \<and> c \<le> 8202)
     \<or> c = 8232 \<or> c = 8233 \<or> c = 8239 \<or> c = 8287 \<or> c = 12288 \<or> c = 65279)"

text \<open>The class \<^verbatim>\<open>[\w\/\-\s]\<close> of line 105.\<close>

definition zone_char :: "nat \<Rightarrow> bool" where
  "zone_char c = (is_word c \<or> c = 47 \<or> c = 45 \<or> is_space c)"

text \<open>
  The flag \<^verbatim>\<open>i\<close> compares the canonical (upper case) forms of two code units. The
  literal part of the pattern is ASCII, and a code unit from 128 on is never canonicalised
  to an ASCII one, so folding the ASCII lower case letters is all that the comparison with
  the literal needs.
\<close>

definition canon :: "nat \<Rightarrow> nat" where
  "canon c = (if 97 \<le> c \<and> c \<le> 122 then c - 32 else c)"

text \<open>
  \<^verbatim>\<open>/current time in ([\w\/\-\s]+)/i\<close> tried at the start of \<open>s\<close>: the literal, then
  the longest run of class characters, which must not be empty. The result is group 1.
\<close>

definition match_here :: "jsstring \<Rightarrow> jsstring option" where
  "match_here s =
     (let lit = str ''current time in '';
          grp = takeWhile zone_char (drop (length lit) s)
      in if map canon (take (length lit) s) = map canon lit \<and> grp \<noteq> [] then Some grp else None)"

text \<open>
  \<^verbatim>\<open>prompt.match(...)\<close> without the \<^verbatim>\<open>g\<close> flag: the leftmost position where the
  pattern matches; \<open>None\<close> is the \<^verbatim>\<open>null\<close> of the source.
\<close>

fun timezoneMatch :: "jsstring \<Rightarrow> jsstring option" where
  "timezoneMatch [] = None"
| "timezoneMatch (c # s) =
     (case match_here (c # s) of Some grp \<Rightarrow> Some grp | None \<Rightarrow> timezoneMatch s)"

text \<open>\<^verbatim>\<open>.replace(/\s/g, '_')\<close> of line 106 and \<^verbatim>\<open>.replace(/_/g, ' ')\<close> of line 79.\<close>

definition spaces_to_underscores :: "jsstring \<Rightarrow> jsstring" where
  "spaces_to_underscores s = map (\<lambda>c. if is_space c then 95 else c) s"

definition underscores_to_spaces :: "jsstring \<Rightarrow> jsstring" where
  "underscores_to_spaces s = map (\<lambda>c. if c = 95 then 32 else c) s"

section \<open>Credentials\<close>

text \<open>
  A record of \<^verbatim>\<open>apikeys.json\<close>. The expiration is written as an ISO date string by
  \<^verbatim>\<open>JSON.stringify\<close> and read back with \<^verbatim>\<open>new Date(...)\<close>; both keep the time value,
  the milliseconds since the epoch, which is what the model stores. The file holds what
  \<^verbatim>\<open>saveApiKeys\<close> wrote, or does not exist (\<open>None\<close>).
\<close>

record apikey =
  api_key :: jsstring
  expiration :: int

type_synonym keyfile = "apikey list option"

definition API_KEY_EXPIRY_DAYS :: int where
  "API_KEY_EXPIRY_DAYS = 7"

definition msPerDay :: int where
  "msPerDay = 86400000"

definition loadApiKeys :: "keyfile \<Rightarrow> apikey list" where
  "loadApiKeys file = (case file of None \<Rightarrow> [] | Some apiKeys \<Rightarrow> apiKeys)"

definition saveApiKeys :: "apikey list \<Rightarrow> keyfile" where
  "saveApiKeys apiKeys = Some apiKeys"

text \<open>
  \<open>now\<close> is the value of \<^verbatim>\<open>new Date()\<close>. \<^verbatim>\<open>find\<close> returns the first record with the
  token; the result of the source is used as a truth value only.
\<close>

definition validateApiKey :: "int \<Rightarrow> keyfile \<Rightarrow> jsstring \<Rightarrow> bool" where
  "validateApiKey now file apiKey =
     (case find (\<lambda>key. api_key key = apiKey) (loadApiKeys file) of
        None \<Rightarrow> False
      | Some keyData \<Rightarrow> now < expiration keyData)"

text \<open>
  \<^verbatim>\<open>Buffer.toString('hex')\<close>: two lower case hexadecimal digits for each byte.
\<close>

definition hex_digit :: "nat \<Rightarrow> nat" where
  "hex_digit d = (if d < 10 then 48 + d else 87 + d)"

definition to_hex :: "8 word list \<Rightarrow> jsstring" where
  "to_hex bytes = concat (map (\<lambda>b. [hex_digit (unat b div 16), hex_digit (unat b mod 16)]) bytes)"

text \<open>
  \<^verbatim>\<open>expiration.setDate(expiration.getDate() + n)\<close> works on local time. With \<open>tza t isUTC\<close>
  the offset of the host's time zone (\<^verbatim>\<open>LocalTZA\<close> of ECMAScript), the date is moved to
  local time, its day number is raised by \<open>n\<close> (\<^verbatim>\<open>MakeDay\<close> with a day of the month past the
  end of the month counts on into the next), the time within the day is kept, and the
  result is moved back to UTC.
\<close>

definition LocalTime :: "(int \<Rightarrow> bool \<Rightarrow> int) \<Rightarrow> int \<Rightarrow> int" where
  "LocalTime tza t = t + tza t True"

definition UTC :: "(int \<Rightarrow> bool \<Rightarrow> int) \<Rightarrow> int \<Rightarrow> int" where
  "UTC tza t = t - tza t False"

definition add_days :: "(int \<Rightarrow> bool \<Rightarrow> int) \<Rightarrow> int \<Rightarrow> int \<Rightarrow> int" where
  "add_days tza t n =
     (let local = LocalTime tza t;
          day = local div msPerDay;
          timeWithinDay = local mod msPerDay
      in UTC tza ((day + n) * msPerDay + timeWithinDay))"

text \<open>
  \<open>bytes\<close> is what \<^verbatim>\<open>crypto.randomBytes(16)\<close> returns. The result is the token and the
  file as \<^verbatim>\<open>saveApiKeys\<close> leaves it.
\<close>

definition generateApiKey ::
  "(int \<Rightarrow> bool \<Rightarrow> int) \<Rightarrow> int \<Rightarrow> 8 word list \<Rightarrow> keyfile \<Rightarrow> jsstring \<times> keyfile" where
  "generateApiKey tza now bytes file =
     (let apiKey = str ''nsh-'' @ to_hex bytes;
          expiration = add_days tza now API_KEY_EXPIRY_DAYS;
          apiKeys = loadApiKeys file @ [\<lparr>api_key = apiKey, expiration = expiration\<rparr>]
      in (apiKey, saveApiKeys apiKeys))"

definition deleteExpiredApiKeys :: "int \<Rightarrow> keyfile \<Rightarrow> keyfile" where
  "deleteExpiredApiKeys now file =
     saveApiKeys (filter (\<lambda>key. now < expiration key) (loadApiKeys file))"

section \<open>The environment of the handlers\<close>

text \<open>
  An exception of the source, whatever raised it: both \<^verbatim>\<open>catch\<close> blocks drop the
  exception and answer with their fixed message.
\<close>

datatype error = MatcherError | StorageError | SearchError | TypeError

text \<open>
  A call of the handlers on the \<^verbatim>\<open>NlpManager\<close>, in the order of its arguments:
  \<^verbatim>\<open>addDocument(lang, utterance, intent)\<close>, \<^verbatim>\<open>addAnswer(lang, intent, answer)\<close>,
  \<^verbatim>\<open>train()\<close>, \<^verbatim>\<open>save()\<close>. The manager's state is the list of the calls it has
  completed.
\<close>

datatype call =
    AddDocument jsstring jsstring jsstring
  | AddAnswer jsstring jsstring jsstring
  | Train
  | Save

text \<open>
  The libraries and the host that \<^verbatim>\<open>index.js\<close> calls are parameters of the model:
  \<^item> \<open>process\<close>: \<^verbatim>\<open>(await manager.process(language, prompt)).answer\<close>, where
    \<open>Inr None\<close> is \<^verbatim>\<open>undefined\<close> and \<open>Inl\<close> a rejected promise;
  \<^item> \<open>throws\<close>: whether a call on the manager raises;
  \<^item> \<open>zone_lookup\<close>: \<^verbatim>\<open>moment.tz.zone(timezone)\<close>, where \<open>Inr True\<close> is a zone,
    \<open>Inr False\<close> is \<^verbatim>\<open>null\<close> and \<open>Inl\<close> an exception raised by the call;
  \<^item> \<open>format_now\<close>: \<^verbatim>\<open>moment().tz(timezone).format('MMMM Do YYYY, h:mm:ss a')\<close>,
    or \<open>Inl\<close> when it raises;
  \<^item> \<open>db_ok\<close>: whether \<^verbatim>\<open>db.all\<close> resolves (it rejects on a storage fault);
  \<^item> \<open>fuse_search\<close>: the \<^verbatim>\<open>item\<close>s of \<^verbatim>\<open>new Fuse(questions, { threshold: 0.3
    }).search(prompt)\<close>, in the order of the result.
\<close>

record env =
  process :: "jsstring \<Rightarrow> jsstring \<Rightarrow> error + jsstring option"
  throws :: "call \<Rightarrow> bool"
  zone_lookup :: "jsstring \<Rightarrow> error + bool"
  format_now :: "jsstring \<Rightarrow> error + jsstring"
  db_ok :: bool
  fuse_search :: "jsstring list \<Rightarrow> jsstring \<Rightarrow> error + jsstring list"

text \<open>A row of the table \<^verbatim>\<open>responses\<close>: question and answer.\<close>

type_synonym row = "jsstring \<times> jsstring"

text \<open>The status and the JSON body of a response.\<close>

datatype body =
    ApiKeyBody jsstring
  | KeysBody "apikey list"
  | ResponseBody jsstring
  | MessageBody jsstring
  | ErrorsBody "string list"

type_synonym reply = "nat \<times> body"

section \<open>Time queries\<close>

text \<open>
  \<^verbatim>\<open>generateTimeResponse\<close> has no \<^verbatim>\<open>try\<close> of its own: an exception of a call into
  the library leaves it, and the result is \<open>Inl\<close>.
\<close>

definition generateTimeResponse :: "env \<Rightarrow> jsstring \<Rightarrow> error + jsstring" where
  "generateTimeResponse e timezone =
     (case zone_lookup e timezone of
        Inl err \<Rightarrow> Inl err
      | Inr zone \<Rightarrow>
          if \<not> zone then Inr (str ''Invalid timezone.'')
          else case format_now e timezone of
                 Inl err \<Rightarrow> Inl err
               | Inr formatted \<Rightarrow>
                   Inr (str ''The current time in '' @ underscores_to_spaces timezone @ str '' is ''
                        @ formatted @ str ''.''))"

section \<open>The routes\<close>

definition apikey_route ::
  "(int \<Rightarrow> bool \<Rightarrow> int) \<Rightarrow> int \<Rightarrow> 8 word list \<Rightarrow> keyfile \<Rightarrow> reply \<times> keyfile" where
  "apikey_route tza now bytes file =
     (let (apiKey, file') = generateApiKey tza now bytes file
      in ((200, ApiKeyBody apiKey), file'))"

definition api_keys_route :: "keyfile \<Rightarrow> reply" where
  "api_keys_route file = (200, KeysBody (loadApiKeys file))"

text \<open>
  The request parameters that \<^verbatim>\<open>isString()\<close> checks are \<open>Some\<close> of a string, or \<open>None\<close>
  when the check fails; the body of the 400 response lists the parameters that failed.
\<close>

definition validation_errors :: "(string \<times> jsstring option) list \<Rightarrow> string list" where
  "validation_errors params = map fst (filter (\<lambda>p. snd p = None) params)"

text \<open>
  Lines 108 to 114: the fuzzy search over the questions of the table, and the default.
  Code unit 34 is the double quote, 63 the question mark, 39 the apostrophe.
\<close>

definition fuzzy_or_default :: "env \<Rightarrow> row list \<Rightarrow> jsstring \<Rightarrow> error + reply" where
  "fuzzy_or_default e rows prompt =
     (if \<not> db_ok e then Inl StorageError
      else let questions = map fst rows
           in case fuse_search e questions prompt of
                Inl err \<Rightarrow> Inl err
              | Inr [] \<Rightarrow>
                  Inr (200, ResponseBody
                    (str ''I'' @ [39] @ str ''m not sure how to respond to that. Ask something else.''))
              | Inr (item # _) \<Rightarrow>
                  Inr (200, ResponseBody (str ''Did you mean: '' @ [34] @ item @ [34, 63])))"

text \<open>
  Lines 105 to 114: what follows when \<^verbatim>\<open>response.answer\<close> is not truthy. An exception
  inside \<^verbatim>\<open>generateTimeResponse\<close> is raised within the \<^verbatim>\<open>try\<close>, like the others.
\<close>

definition time_or_fuzzy :: "env \<Rightarrow> row list \<Rightarrow> jsstring \<Rightarrow> error + reply" where
  "time_or_fuzzy e rows prompt =
     (case timezoneMatch prompt of
        Some grp \<Rightarrow>
          (case generateTimeResponse e (spaces_to_underscores grp) of
             Inl err \<Rightarrow> Inl err
           | Inr response \<Rightarrow> Inr (200, ResponseBody response))
      | None \<Rightarrow> fuzzy_or_default e rows prompt)"

text \<open>
  Lines 102 to 114, the body of \<^verbatim>\<open>try\<close>. \<^verbatim>\<open>if (response.answer)\<close> tests a truth
  value: \<^verbatim>\<open>undefined\<close> and the empty string both fail it.
\<close>

definition resolve :: "env \<Rightarrow> row list \<Rightarrow> jsstring \<Rightarrow> jsstring \<Rightarrow> error + reply" where
  "resolve e rows language prompt =
     (case process e language prompt of
        Inl err \<Rightarrow> Inl err
      | Inr None \<Rightarrow> time_or_fuzzy e rows prompt
      | Inr (Some answer) \<Rightarrow>
          if answer \<noteq> [] then Inr (200, ResponseBody answer)
          else time_or_fuzzy e rows prompt)"

text \<open>
  \<^verbatim>\<open>GET /nash\<close>. \<open>language_q\<close> is \<open>None\<close> when the request has no \<^verbatim>\<open>language\<close>: the
  destructuring default \<^verbatim>\<open>language = 'en'\<close> applies to \<^verbatim>\<open>undefined\<close> only.
\<close>

definition nash ::
  "env \<Rightarrow> int \<Rightarrow> keyfile \<Rightarrow> row list \<Rightarrow>
   jsstring option \<Rightarrow> jsstring option \<Rightarrow> jsstring option \<Rightarrow> reply" where
  "nash e now file rows prompt_q apiKey_q language_q =
     (case (prompt_q, apiKey_q) of
        (Some prompt, Some apiKey) \<Rightarrow>
          (let language = (case language_q of None \<Rightarrow> str ''en'' | Some l \<Rightarrow> l)
           in if \<not> validateApiKey now file apiKey then (403, MessageBody (str ''Invalid API key''))
              else case resolve e rows language prompt of
                     Inr r \<Rightarrow> r
                   | Inl err \<Rightarrow> (500, MessageBody (str ''Error retrieving responses'')))
      | _ \<Rightarrow> (400, ErrorsBody (validation_errors [(''prompt'', prompt_q), (''apiKey'', apiKey_q)])))"

section \<open>Training\<close>

definition languages :: "jsstring list" where
  "languages = [str ''en'', str ''tl'', str ''es'', str ''fr'']"

text \<open>
  The calls run in order; the first that raises ends the run. The result is the calls
  that completed, and whether one raised.
\<close>

fun run_calls :: "(call \<Rightarrow> bool) \<Rightarrow> call list \<Rightarrow> call list \<times> bool" where
  "run_calls thr [] = ([], False)"
| "run_calls thr (c # cs) =
     (if thr c then ([], True)
      else (case run_calls thr cs of (done, raised) \<Rightarrow> (c # done, raised)))"

text \<open>Lines 35 to 38 and 137 to 140: the \<^verbatim>\<open>forEach\<close> over the four languages.\<close>

definition register_pair :: "jsstring \<Rightarrow> jsstring \<Rightarrow> call list" where
  "register_pair question answer =
     concat (map (\<lambda>lang. [AddDocument lang question question, AddAnswer lang question answer])
       languages)"


text \<open>
  \<^verbatim>\<open>GET /teach\<close>: the response, the table and the manager afterwards. The insert of
  lines 133 to 135 is issued without a callback and without \<^verbatim>\<open>await\<close>: the handler
  never sees it fail, and the model takes it as done when the handler goes on.
\<close>

definition teach ::
  "env \<Rightarrow> row list \<Rightarrow> call list \<Rightarrow> jsstring option \<Rightarrow> jsstring option \<Rightarrow>
   reply \<times> row list \<times> call list" where
  "teach e rows manager question_q answer_q =
     (case (question_q, answer_q) of
        (Some question, Some answer) \<Rightarrow>
          if \<not> db_ok e then ((500, MessageBody (str ''Error training the chatbot'')), rows, manager)
          else if filter (\<lambda>r. r = (question, answer)) rows \<noteq> []
          then ((200, MessageBody (str ''This answer already exists for the question'')), rows, manager)
          else (case run_calls (throws e) (register_pair question answer @ [Train, Save]) of
                  (done, raised) \<Rightarrow>
                    ((if raised then (500, MessageBody (str ''Error training the chatbot''))
                      else (200, MessageBody (str ''Training successful''))),
                     rows @ [(question, answer)], manager @ done))
      | _ \<Rightarrow> ((400, ErrorsBody (validation_errors [(''question'', question_q), (''answer'', answer_q)])),
              rows, manager))"

section \<open>Auto-learning\<close>










section \<open>Observing the registrations\<close>




section \<open>Example environments\<close>

text \<open>
  A host where nothing raises: a manager that has learnt nothing, a time zone database
  with one zone, and a search that finds the questions equal to the prompt.
\<close>

definition quiet_env :: env where
  "quiet_env =
     \<lparr>process = (\<lambda>language prompt. Inr None),
      throws = (\<lambda>c. False),
      zone_lookup = (\<lambda>timezone. Inr (timezone = str ''Europe/London'')),
      format_now = (\<lambda>timezone. Inr (str ''November 3rd 2026, 9:00:00 am'')),
      db_ok = True,
      fuse_search = (\<lambda>questions prompt. Inr (filter (\<lambda>q. q = prompt) questions))\<rparr>"

text \<open>A manager that answers every prompt with the same text, whatever the language.\<close>

definition answering_env :: "jsstring \<Rightarrow> env" where
  "answering_env answer = quiet_env\<lparr>process := (\<lambda>language prompt. Inr (Some answer))\<rparr>"

text \<open>A manager that has an answer for \<^verbatim>\<open>en\<close> only.\<close>

definition english_env :: env where
  "english_env =
     quiet_env\<lparr>process := (\<lambda>language prompt.
       if language = str ''en'' then Inr (Some (str ''Hi there'')) else Inr None)\<rparr>"

text \<open>A manager whose \<^verbatim>\<open>train()\<close> rejects.\<close>

definition failing_train_env :: env where
  "failing_train_env = quiet_env\<lparr>throws := (\<lambda>c. c = Train)\<rparr>"

text \<open>
  A time zone library that raises for the name \<^verbatim>\<open>constructor\<close>, as a lookup in a table
  that is a plain object does when it follows the inherited property of that name.
\<close>

definition raising_zone_env :: env where
  "raising_zone_env =
     quiet_env\<lparr>zone_lookup := (\<lambda>timezone.
       if timezone = str ''constructor'' then Inl TypeError
       else Inr (timezone = str ''Europe/London''))\<rparr>"


definition key_file :: keyfile where
  "key_file = Some [\<lparr>api_key = str ''nsh-01'', expiration = 1000\<rparr>]"

text \<open>
  The offsets of a host on United States Eastern time around the end of daylight saving
  time on 1 November 2026, 06:00 UTC (1793512800000): four hours behind UTC before, five
  hours after.
\<close>

definition us_eastern :: "int \<Rightarrow> bool \<Rightarrow> int" where
  "us_eastern t isUTC =
     (if isUTC then (if t < 1793512800000 then - 14400000 else - 18000000)
      else (if t < 1793512800000 - 14400000 then - 14400000 else - 18000000))"

section \<open>Evaluation\<close>

lemmas string_defs = str_def canon_def zone_char_def is_word_def is_space_def match_here_def
  spaces_to_underscores_def underscores_to_spaces_def

lemmas key_defs = validateApiKey_def loadApiKeys_def saveApiKeys_def key_file_def

lemmas date_defs = add_days_def API_KEY_EXPIRY_DAYS_def msPerDay_def LocalTime_def UTC_def Let_def

lemmas route_defs = nash_def resolve_def time_or_fuzzy_def fuzzy_or_default_def
  generateTimeResponse_def

lemmas env_defs = quiet_env_def answering_env_def

section \<open>Lemmas on lists and calls\<close>

lemma find_first_index:
  "(case find P xs of None \<Rightarrow> False | Some x \<Rightarrow> Q x) \<longleftrightarrow>
   (\<exists>i < length xs. P (xs ! i) \<and> Q (xs ! i) \<and> (\<forall>j < i. \<not> P (xs ! j)))"
proof (cases "find P xs")
  case None
  then have "\<forall>x \<in> set xs. \<not> P x" by (simp add: find_None_iff)
  then have "\<forall>i < length xs. \<not> P (xs ! i)" by simp
  with None show ?thesis by auto
next
  case (Some x)
  then obtain i where i: "i < length xs" "P (xs ! i)" "x = xs ! i" "\<forall>j < i. \<not> P (xs ! j)"
    by (auto simp: find_Some_iff)
  have "(\<exists>i' < length xs. P (xs ! i') \<and> Q (xs ! i') \<and> (\<forall>j < i'. \<not> P (xs ! j))) \<longleftrightarrow> Q (xs ! i)"
  proof
    assume "\<exists>i' < length xs. P (xs ! i') \<and> Q (xs ! i') \<and> (\<forall>j < i'. \<not> P (xs ! j))"
    then obtain i' where i': "i' < length xs" "P (xs ! i')" "Q (xs ! i')" "\<forall>j < i'. \<not> P (xs ! j)"
      by blast
    have "\<not> i' < i" using i(4) i'(2) by blast
    moreover have "\<not> i < i'" using i'(4) i(2) by blast
    ultimately have "i' = i" by simp
    with i'(3) show "Q (xs ! i)" by simp
  next
    assume "Q (xs ! i)"
    with i show "\<exists>i' < length xs. P (xs ! i') \<and> Q (xs ! i') \<and> (\<forall>j < i'. \<not> P (xs ! j))"
      by blast
  qed
  with Some i(3) show ?thesis by simp
qed

lemma find_distinct_key:
  assumes "distinct (map f xs)" "x \<in> set xs" "f x = k"
  shows "find (\<lambda>y. f y = k) xs = Some x"
  using assms by (induction xs) (auto simp: image_iff)

lemma find_append_fresh:
  "k \<notin> f ` set xs \<Longrightarrow> find (\<lambda>y. f y = k) (xs @ [x]) = (if f x = k then Some x else None)"
  by (induction xs) auto

lemma count_list_distinct: "distinct xs \<Longrightarrow> x \<in> set xs \<Longrightarrow> count_list xs x = 1"
  by (induction xs) (auto simp: count_list_0_iff)

lemma length_to_hex: "length (to_hex bytes) = 2 * length bytes"
  by (induction bytes) (simp_all add: to_hex_def)

lemma run_calls_raised: "snd (run_calls thr cs) \<longleftrightarrow> (\<exists>c \<in> set cs. thr c)"
  by (induction cs) (auto split: prod.splits)









section \<open>Lemmas on the routes\<close>

lemma time_or_fuzzy_status: "time_or_fuzzy e rows prompt = Inr r \<Longrightarrow> fst r = 200"
  by (auto simp: time_or_fuzzy_def fuzzy_or_default_def
      split: option.splits sum.splits list.splits if_splits)

lemma resolve_status: "resolve e rows language prompt = Inr r \<Longrightarrow> fst r = 200"
  by (auto simp: resolve_def split: option.splits sum.splits if_splits dest: time_or_fuzzy_status)

lemma nash_status:
  "fst (nash e now store rows (Some prompt) (Some apiKey) language_q) \<in> {200, 403, 500}"
  by (auto simp: nash_def split: option.splits sum.splits dest: resolve_status)

lemma time_or_fuzzy_matched:
  "timezoneMatch prompt = Some grp \<Longrightarrow>
   generateTimeResponse e (spaces_to_underscores grp) = Inr response \<Longrightarrow>
   time_or_fuzzy e rows prompt = Inr (200, ResponseBody response)"
  by (simp add: time_or_fuzzy_def)

lemma generateTimeResponse_process:
  "generateTimeResponse (e\<lparr>process := matcher\<rparr>) timezone = generateTimeResponse e timezone"
  by (simp add: generateTimeResponse_def split: sum.splits)

lemma fuzzy_or_default_process:
  "fuzzy_or_default (e\<lparr>process := matcher\<rparr>) rows prompt = fuzzy_or_default e rows prompt"
  by (simp add: fuzzy_or_default_def)

lemma time_or_fuzzy_process:
  "time_or_fuzzy (e\<lparr>process := matcher\<rparr>) rows prompt = time_or_fuzzy e rows prompt"
  by (simp add: time_or_fuzzy_def generateTimeResponse_process fuzzy_or_default_process
      split: option.splits)

lemma resolve_process:
  assumes "matcher language prompt = process e language prompt"
  shows "resolve (e\<lparr>process := matcher\<rparr>) rows language prompt = resolve e rows language prompt"
proof (cases "process e language prompt")
  case (Inl err)
  with assms show ?thesis by (simp add: resolve_def)
next
  case (Inr answer)
  with assms show ?thesis
    by (cases answer) (simp_all add: resolve_def time_or_fuzzy_process)
qed

lemma time_or_fuzzy_raised:
  "timezoneMatch prompt = Some grp \<Longrightarrow>
   generateTimeResponse e (spaces_to_underscores grp) = Inl err \<Longrightarrow>
   time_or_fuzzy e rows prompt = Inl err"
  by (simp add: time_or_fuzzy_def)

lemma resolve_matched_independent:
  assumes "timezoneMatch prompt = Some grp"
  shows "resolve (e\<lparr>db_ok := ok, fuse_search := search\<rparr>) rows' language prompt
           = resolve e rows language prompt"
  using assms
  by (simp add: resolve_def time_or_fuzzy_def generateTimeResponse_def
      split: sum.splits option.splits)

lemma teach_duplicate:
  "db_ok e \<Longrightarrow> (question, answer) \<in> set rows \<Longrightarrow>
   teach e rows manager (Some question) (Some answer)
     = ((200, MessageBody (str ''This answer already exists for the question'')), rows, manager)"
  by (auto simp: teach_def filter_empty_conv)

lemma teach_rows:
  "fst (snd (teach e rows manager question_q answer_q)) = rows
   \<or> (\<exists>question answer. question_q = Some question \<and> answer_q = Some answer \<and> db_ok e
        \<and> (question, answer) \<notin> set rows
        \<and> fst (snd (teach e rows manager question_q answer_q)) = rows @ [(question, answer)])"
  by (cases question_q; cases answer_q) (auto simp: teach_def filter_empty_conv split: prod.splits)

lemma teach_distinct:
  "distinct rows \<Longrightarrow> distinct (fst (snd (teach e rows manager question_q answer_q)))"
  using teach_rows [of e rows manager question_q answer_q] by auto

lemma teach_stores:
  "db_ok e \<Longrightarrow>
   (question, answer) \<in> set (fst (snd (teach e rows manager (Some question) (Some answer))))"
  by (auto simp: teach_def filter_empty_conv split: prod.splits)




section \<open>Credentials: validation, generation, sweep\<close>

text \<open>
  C5, as the code has it. \<^verbatim>\<open>validateApiKey\<close> looks at the first stored record that
  carries the token and at no other: the token is valid exactly when that record expires
  strictly after now. A valid token therefore always has a stored record with its token
  and a later expiration, and when no two stored records share a token the converse holds
  too: the token is valid if and only if some record carries it and expires strictly later
  than now.
\<close>

theorem validateApiKey_first_record:
  "(validateApiKey now store token \<longleftrightarrow>
      (\<exists>i < length (loadApiKeys store).
          api_key (loadApiKeys store ! i) = token \<and> now < expiration (loadApiKeys store ! i)
          \<and> (\<forall>j < i. api_key (loadApiKeys store ! j) \<noteq> token)))
   \<and> (validateApiKey now store token \<longrightarrow>
        (\<exists>key \<in> set (loadApiKeys store). api_key key = token \<and> now < expiration key))
   \<and> (distinct (map api_key (loadApiKeys store)) \<longrightarrow>
        (validateApiKey now store token \<longleftrightarrow>
           (\<exists>key \<in> set (loadApiKeys store). api_key key = token \<and> now < expiration key)))"
proof -
  let ?ks = "loadApiKeys store"
  have first: "validateApiKey now store token \<longleftrightarrow>
      (\<exists>i < length ?ks. api_key (?ks ! i) = token \<and> now < expiration (?ks ! i)
          \<and> (\<forall>j < i. api_key (?ks ! j) \<noteq> token))"
    unfolding validateApiKey_def by (rule find_first_index)
  have sound: "\<exists>key \<in> set ?ks. api_key key = token \<and> now < expiration key"
    if "validateApiKey now store token"
  proof -
    from that first obtain i where "i < length ?ks" "api_key (?ks ! i) = token"
      "now < expiration (?ks ! i)" by blast
    then show ?thesis using nth_mem by blast
  qed
  have complete: "validateApiKey now store token"
    if d: "distinct (map api_key ?ks)"
      and ex: "\<exists>key \<in> set ?ks. api_key key = token \<and> now < expiration key"
  proof -
    from ex obtain key where k: "key \<in> set ?ks" "api_key key = token" "now < expiration key"
      by blast
    from find_distinct_key [OF d k(1) k(2)] k(3) show ?thesis
      by (simp add: validateApiKey_def)
  qed
  from first sound complete show ?thesis by blast
qed

text \<open>
  Two records with different tokens, the first unexpired at time 50 and the second
  expired: the first token is valid, the second is not, and an expiration equal to now
  is not valid either.
\<close>

theorem validateApiKey_first_record_witness:
  "distinct (map api_key (loadApiKeys (Some [\<lparr>api_key = str ''nsh-0a'', expiration = 100\<rparr>,
                                              \<lparr>api_key = str ''nsh-0b'', expiration = 50\<rparr>])))
   \<and> validateApiKey 50 (Some [\<lparr>api_key = str ''nsh-0a'', expiration = 100\<rparr>,
                              \<lparr>api_key = str ''nsh-0b'', expiration = 50\<rparr>]) (str ''nsh-0a'')
   \<and> \<not> validateApiKey 50 (Some [\<lparr>api_key = str ''nsh-0a'', expiration = 100\<rparr>,
                              \<lparr>api_key = str ''nsh-0b'', expiration = 50\<rparr>]) (str ''nsh-0b'')"
proof -
  let ?a = "\<lparr>api_key = str ''nsh-0a'', expiration = 100\<rparr>"
  let ?b = "\<lparr>api_key = str ''nsh-0b'', expiration = 50\<rparr>"
  have d: "distinct (map api_key (loadApiKeys (Some [?a, ?b])))"
    by (simp add: loadApiKeys_def str_def)
  have ks: "set (loadApiKeys (Some [?a, ?b])) = {?a, ?b}"
    by (simp add: loadApiKeys_def)
  have iff_a: "validateApiKey 50 (Some [?a, ?b]) (str ''nsh-0a'') \<longleftrightarrow>
      (\<exists>key \<in> set (loadApiKeys (Some [?a, ?b])). api_key key = str ''nsh-0a'' \<and> 50 < expiration key)"
    using validateApiKey_first_record [of 50 "Some [?a, ?b]" "str ''nsh-0a''"] d by blast
  have iff_b: "validateApiKey 50 (Some [?a, ?b]) (str ''nsh-0b'') \<longleftrightarrow>
      (\<exists>key \<in> set (loadApiKeys (Some [?a, ?b])). api_key key = str ''nsh-0b'' \<and> 50 < expiration key)"
    using validateApiKey_first_record [of 50 "Some [?a, ?b]" "str ''nsh-0b''"] d by blast
  have yes: "validateApiKey 50 (Some [?a, ?b]) (str ''nsh-0a'')"
    unfolding iff_a ks by simp
  have no: "\<not> validateApiKey 50 (Some [?a, ?b]) (str ''nsh-0b'')"
    unfolding iff_b ks by (simp add: str_def)
  from d yes no show ?thesis by blast
qed

text \<open>
  Where the statement with "some stored record" fails: two records carry the same token,
  the first expired and the second not. The second record has the token and expires after
  now, and the token is not valid, since \<^verbatim>\<open>find\<close> stops at the first.
\<close>

theorem validateApiKey_duplicate_token_counterexample:
  "\<not> validateApiKey 50 (Some [\<lparr>api_key = str ''nsh-00'', expiration = 0\<rparr>,
                              \<lparr>api_key = str ''nsh-00'', expiration = 100\<rparr>]) (str ''nsh-00'')
   \<and> \<lparr>api_key = str ''nsh-00'', expiration = 100\<rparr>
       \<in> set (loadApiKeys (Some [\<lparr>api_key = str ''nsh-00'', expiration = 0\<rparr>,
                                 \<lparr>api_key = str ''nsh-00'', expiration = 100\<rparr>]))
   \<and> api_key \<lparr>api_key = str ''nsh-00'', expiration = 100\<rparr> = str ''nsh-00''
   \<and> (50::int) < expiration \<lparr>api_key = str ''nsh-00'', expiration = 100\<rparr>"
  by (simp add: validateApiKey_def loadApiKeys_def)

text \<open>
  C6, as the code has it. \<^verbatim>\<open>generateApiKey\<close> returns the token \<^verbatim>\<open>nsh-\<close> followed by
  two hexadecimal digits for each random byte, and leaves the file with exactly one more
  record, at the end: that token, expiring at the instant whose local time is 7 times
  24 hours after the local time of now. When the host's offset from UTC is the same at
  both ends, that is now plus 7 times 24 hours exactly. \<^verbatim>\<open>GET /apikey\<close> answers 200
  with the token. The token is valid at every instant before its expiration, provided no
  record stored before carries the same token.
\<close>

theorem generateApiKey_appends:
  "generateApiKey tza now bytes store = (token, store') \<Longrightarrow>
     token = str ''nsh-'' @ to_hex bytes
     \<and> take 4 token = str ''nsh-''
     \<and> length token = 4 + 2 * length bytes
     \<and> loadApiKeys store' =
         loadApiKeys store @ [\<lparr>api_key = token, expiration = add_days tza now API_KEY_EXPIRY_DAYS\<rparr>]
     \<and> length (loadApiKeys store') = Suc (length (loadApiKeys store))
     \<and> apikey_route tza now bytes store = ((200, ApiKeyBody token), store')
     \<and> add_days tza now API_KEY_EXPIRY_DAYS = UTC tza (LocalTime tza now + 7 * msPerDay)
     \<and> (tza (LocalTime tza now + 7 * msPerDay) False = tza now True \<longrightarrow>
           add_days tza now API_KEY_EXPIRY_DAYS = now + 7 * msPerDay)
     \<and> (token \<notin> api_key ` set (loadApiKeys store) \<and> t < add_days tza now API_KEY_EXPIRY_DAYS \<longrightarrow>
           validateApiKey t store' token)"
proof -
  assume g: "generateApiKey tza now bytes store = (token, store')"
  let ?new = "\<lparr>api_key = token, expiration = add_days tza now API_KEY_EXPIRY_DAYS\<rparr>"
  from g have tok: "token = str ''nsh-'' @ to_hex bytes"
    and store': "store' = Some (loadApiKeys store @ [?new])"
    by (auto simp: generateApiKey_def saveApiKeys_def Let_def)
  have pre: "take 4 token = str ''nsh-''" and len: "length token = 4 + 2 * length bytes"
    by (simp_all add: tok str_def length_to_hex)
  have load: "loadApiKeys store' = loadApiKeys store @ [?new]"
    by (simp add: store' loadApiKeys_def)
  have route: "apikey_route tza now bytes store = ((200, ApiKeyBody token), store')"
    by (simp add: apikey_route_def g)
  have days: "(LocalTime tza now div msPerDay + 7) * msPerDay + LocalTime tza now mod msPerDay
            = LocalTime tza now + 7 * msPerDay"
    by (simp add: algebra_simps)
  have local: "add_days tza now API_KEY_EXPIRY_DAYS = UTC tza (LocalTime tza now + 7 * msPerDay)"
    by (simp add: add_days_def API_KEY_EXPIRY_DAYS_def Let_def days)
  have week: "add_days tza now API_KEY_EXPIRY_DAYS = now + 7 * msPerDay"
    if "tza (LocalTime tza now + 7 * msPerDay) False = tza now True"
    using that by (simp add: local UTC_def) (simp add: LocalTime_def)
  have valid: "validateApiKey t store' token"
    if "token \<notin> api_key ` set (loadApiKeys store)" "t < add_days tza now API_KEY_EXPIRY_DAYS"
    using that by (simp add: validateApiKey_def load find_append_fresh)
  from tok pre len load route local week valid show ?thesis by simp
qed

text \<open>
  A host one hour ahead of UTC all year, an empty store and sixteen bytes: the token has
  the prefix and 32 digits, the record expires 604800000 ms after now, and the token is
  valid at once.
\<close>

theorem generateApiKey_appends_witness:
  "generateApiKey (\<lambda>t isUTC. 3600000) 1000
       [0x0f, 0xa0, 1, 2, 3, 4, 5, 6, 7, 8, 9, 10, 11, 12, 13, 0xff] None
     = (str ''nsh-0fa00102030405060708090a0b0c0dff'',
        Some [\<lparr>api_key = str ''nsh-0fa00102030405060708090a0b0c0dff'', expiration = 604801000\<rparr>])
   \<and> validateApiKey 1000
        (Some [\<lparr>api_key = str ''nsh-0fa00102030405060708090a0b0c0dff'', expiration = 604801000\<rparr>])
        (str ''nsh-0fa00102030405060708090a0b0c0dff'')"
proof -
  have g: "generateApiKey (\<lambda>t isUTC. 3600000) 1000
       [0x0f, 0xa0, 1, 2, 3, 4, 5, 6, 7, 8, 9, 10, 11, 12, 13, 0xff] None
     = (str ''nsh-0fa00102030405060708090a0b0c0dff'',
        Some [\<lparr>api_key = str ''nsh-0fa00102030405060708090a0b0c0dff'', expiration = 604801000\<rparr>])"
    by (simp add: generateApiKey_def loadApiKeys_def saveApiKeys_def to_hex_def hex_digit_def
        str_def date_defs)
  note th = generateApiKey_appends [OF g, of 1000]
  have fresh: "str ''nsh-0fa00102030405060708090a0b0c0dff'' \<notin> api_key ` set (loadApiKeys None)"
    by (simp add: loadApiKeys_def)
  have lt: "1000 < add_days (\<lambda>t isUTC. 3600000) 1000 API_KEY_EXPIRY_DAYS"
    by (simp add: date_defs)
  from th fresh lt have "validateApiKey 1000
        (Some [\<lparr>api_key = str ''nsh-0fa00102030405060708090a0b0c0dff'', expiration = 604801000\<rparr>])
        (str ''nsh-0fa00102030405060708090a0b0c0dff'')"
    by blast
  with g show ?thesis by blast
qed

text \<open>
  Where the statement fails. First: the store holds an expired record whose token is the
  one that the random bytes produce again; the new record is appended behind it, and the
  token just returned is not valid. Second: on a host on United States Eastern time, a
  key generated on 28 October 2026 at 16:00 UTC expires 7 days and one hour later, not
  7 times 24 hours later, because daylight saving time ends in between.
\<close>

theorem generateApiKey_counterexample:
  "\<not> validateApiKey 1000
       (snd (generateApiKey (\<lambda>t isUTC. 0) 1000 [0, 0, 0, 0, 0, 0, 0, 0, 0, 0, 0, 0, 0, 0, 0, 0]
          (Some [\<lparr>api_key = str ''nsh-00000000000000000000000000000000'', expiration = 0\<rparr>])))
       (fst (generateApiKey (\<lambda>t isUTC. 0) 1000 [0, 0, 0, 0, 0, 0, 0, 0, 0, 0, 0, 0, 0, 0, 0, 0]
          (Some [\<lparr>api_key = str ''nsh-00000000000000000000000000000000'', expiration = 0\<rparr>])))
   \<and> expiration (last (loadApiKeys (snd (generateApiKey us_eastern 1793203200000
          [0, 0, 0, 0, 0, 0, 0, 0, 0, 0, 0, 0, 0, 0, 0, 0] None))))
       = 1793203200000 + 7 * 86400000 + 3600000"
  by (simp add: generateApiKey_def validateApiKey_def loadApiKeys_def saveApiKeys_def to_hex_def
      hex_digit_def str_def date_defs us_eastern_def)

text \<open>
  C7. The sweep keeps the records that expire strictly after now, in their order, and
  removes the others: a record is in the store afterwards exactly when it was there before
  and is not expired. A second sweep at the same instant changes nothing, and after a
  sweep no stored record is expired.
\<close>

theorem deleteExpiredApiKeys_sweep:
  "loadApiKeys (deleteExpiredApiKeys now store)
     = filter (\<lambda>key. now < expiration key) (loadApiKeys store)
   \<and> (key \<in> set (loadApiKeys (deleteExpiredApiKeys now store)) \<longleftrightarrow>
        key \<in> set (loadApiKeys store) \<and> now < expiration key)
   \<and> deleteExpiredApiKeys now (deleteExpiredApiKeys now store) = deleteExpiredApiKeys now store
   \<and> filter (\<lambda>key. expiration key \<le> now) (loadApiKeys (deleteExpiredApiKeys now store)) = []"
  by (auto simp: deleteExpiredApiKeys_def saveApiKeys_def loadApiKeys_def filter_empty_conv)

text \<open>
  At time 50, of three records expiring at 100, 50 and 0, the sweep keeps the first only.
\<close>

theorem deleteExpiredApiKeys_sweep_witness:
  "loadApiKeys (deleteExpiredApiKeys 50
      (Some [\<lparr>api_key = str ''nsh-0a'', expiration = 100\<rparr>,
             \<lparr>api_key = str ''nsh-0b'', expiration = 50\<rparr>,
             \<lparr>api_key = str ''nsh-0c'', expiration = 0\<rparr>]))
     = [\<lparr>api_key = str ''nsh-0a'', expiration = 100\<rparr>]"
  using deleteExpiredApiKeys_sweep [of 50
      "Some [\<lparr>api_key = str ''nsh-0a'', expiration = 100\<rparr>,
             \<lparr>api_key = str ''nsh-0b'', expiration = 50\<rparr>,
             \<lparr>api_key = str ''nsh-0c'', expiration = 0\<rparr>]"]
  by (simp add: loadApiKeys_def)

text \<open>
  C10. When \<^verbatim>\<open>apikeys.json\<close> does not exist, \<^verbatim>\<open>loadApiKeys\<close> returns the empty list
  and raises nothing; no token is valid, so a request to \<^verbatim>\<open>GET /nash\<close> that passes the
  parameter check is answered 403 with the invalid-key message, whatever its token, and
  \<^verbatim>\<open>GET /api/keys\<close> answers 200 with the empty list.
\<close>

theorem missing_key_file:
  "loadApiKeys None = []
   \<and> \<not> validateApiKey now None token
   \<and> nash e now None rows (Some prompt) (Some token) language_q
       = (403, MessageBody (str ''Invalid API key''))
   \<and> api_keys_route None = (200, KeysBody [])"
  by (simp add: loadApiKeys_def validateApiKey_def nash_def api_keys_route_def)

theorem missing_key_file_witness:
  "nash quiet_env 0 None [] (Some (str ''hello'')) (Some (str ''nsh-01'')) None
     = (403, MessageBody (str ''Invalid API key''))"
  using missing_key_file [of 0 "str ''nsh-01''" quiet_env "[]" "str ''hello''" None]
  by simp

section \<open>The resolution pipeline\<close>

text \<open>
  C1, as the code has it. For a request with a valid key, the stages are tried in this
  order and the first that succeeds answers, with status 200:
  \<^enum> when the matcher returns an answer that is not the empty string, that answer is the
    response, whatever the prompt, the table and the search are;
  \<^enum> otherwise (no answer, or the empty string, which \<^verbatim>\<open>if (response.answer)\<close> takes for
    none), when the prompt matches the time pattern and \<^verbatim>\<open>generateTimeResponse\<close> returns
    a text without raising, that text, whether or not the storage works;
  \<^enum> otherwise, when the table can be read and the search returns a match, the
    "did you mean" response quoting the first matched question;
  \<^enum> otherwise, when the search returns nothing, the fixed message.
\<close>

theorem nash_priority_order:
  "validateApiKey now store apiKey \<Longrightarrow>
   (process e language prompt = Inr (Some answer) \<and> answer \<noteq> [] \<longrightarrow>
      nash e now store rows (Some prompt) (Some apiKey) (Some language) = (200, ResponseBody answer))
   \<and> ((process e language prompt = Inr None \<or> process e language prompt = Inr (Some []))
        \<and> timezoneMatch prompt = Some grp
        \<and> generateTimeResponse e (spaces_to_underscores grp) = Inr response \<longrightarrow>
      nash e now store rows (Some prompt) (Some apiKey) (Some language)
        = (200, ResponseBody response))
   \<and> ((process e language prompt = Inr None \<or> process e language prompt = Inr (Some []))
        \<and> timezoneMatch prompt = None \<and> db_ok e
        \<and> fuse_search e (map fst rows) prompt = Inr (item # others) \<longrightarrow>
      nash e now store rows (Some prompt) (Some apiKey) (Some language)
        = (200, ResponseBody (str ''Did you mean: '' @ [34] @ item @ [34, 63])))
   \<and> ((process e language prompt = Inr None \<or> process e language prompt = Inr (Some []))
        \<and> timezoneMatch prompt = None \<and> db_ok e
        \<and> fuse_search e (map fst rows) prompt = Inr [] \<longrightarrow>
      nash e now store rows (Some prompt) (Some apiKey) (Some language)
        = (200, ResponseBody
            (str ''I'' @ [39] @ str ''m not sure how to respond to that. Ask something else.'')))"
  by (auto simp: nash_def resolve_def time_or_fuzzy_def fuzzy_or_default_def)

text \<open>
  The four stages at concrete requests. The first is the example of the specification: the
  prompt \<^verbatim>\<open>current time in London please\<close> matches the time pattern and the matcher
  answers \<^verbatim>\<open>A\<close>; the response is \<^verbatim>\<open>A\<close>.
\<close>

theorem nash_priority_order_witness:
  "timezoneMatch (str ''current time in London please'') = Some (str ''London please'')
   \<and> nash (answering_env (str ''A'')) 0 key_file [] (Some (str ''current time in London please''))
        (Some (str ''nsh-01'')) (Some (str ''en''))
       = (200, ResponseBody (str ''A''))
   \<and> nash quiet_env 0 key_file [] (Some (str ''What is the current time in Europe/London?''))
        (Some (str ''nsh-01'')) (Some (str ''en''))
       = (200, ResponseBody
           (str ''The current time in Europe/London is November 3rd 2026, 9:00:00 am.''))
   \<and> nash quiet_env 0 key_file [(str ''hello'', str ''hi'')] (Some (str ''hello''))
        (Some (str ''nsh-01'')) (Some (str ''en''))
       = (200, ResponseBody (str ''Did you mean: '' @ [34] @ str ''hello'' @ [34, 63]))
   \<and> nash quiet_env 0 key_file [(str ''hello'', str ''hi'')] (Some (str ''bye''))
        (Some (str ''nsh-01'')) (Some (str ''en''))
       = (200, ResponseBody
           (str ''I'' @ [39] @ str ''m not sure how to respond to that. Ask something else.''))"
proof -
  have key: "validateApiKey 0 key_file (str ''nsh-01'')"
    by (simp add: key_defs)
  note order = nash_priority_order [OF key]
  have london: "timezoneMatch (str ''current time in London please'') = Some (str ''London please'')"
    by (simp add: string_defs)
  have answered: "process (answering_env (str ''A'')) (str ''en'') (str ''current time in London please'')
      = Inr (Some (str ''A'')) \<and> str ''A'' \<noteq> []"
    by (simp add: env_defs str_def)
  have 1: "nash (answering_env (str ''A'')) 0 key_file [] (Some (str ''current time in London please''))
        (Some (str ''nsh-01'')) (Some (str ''en'')) = (200, ResponseBody (str ''A''))"
    by (rule order [THEN conjunct1, THEN mp]) (rule answered)
  have zone: "timezoneMatch (str ''What is the current time in Europe/London?'')
      = Some (str ''Europe/London'')"
    by (simp add: string_defs)
  have rendered: "generateTimeResponse quiet_env (spaces_to_underscores (str ''Europe/London''))
      = Inr (str ''The current time in Europe/London is November 3rd 2026, 9:00:00 am.'')"
    by (simp add: generateTimeResponse_def env_defs string_defs)
  have quiet: "process quiet_env (str ''en'') p = Inr None" for p
    by (simp add: env_defs)
  have 2: "nash quiet_env 0 key_file [] (Some (str ''What is the current time in Europe/London?''))
        (Some (str ''nsh-01'')) (Some (str ''en''))
       = (200, ResponseBody
           (str ''The current time in Europe/London is November 3rd 2026, 9:00:00 am.''))"
    by (rule order [THEN conjunct2, THEN conjunct1, THEN mp]) (use zone quiet rendered in blast)
  have hello: "timezoneMatch (str ''hello'') = None" and bye: "timezoneMatch (str ''bye'') = None"
    by (simp_all add: string_defs)
  have found: "db_ok quiet_env
      \<and> fuse_search quiet_env (map fst [(str ''hello'', str ''hi'')]) (str ''hello'') = Inr (str ''hello'' # [])"
    by (simp add: env_defs)
  have 3: "nash quiet_env 0 key_file [(str ''hello'', str ''hi'')] (Some (str ''hello''))
        (Some (str ''nsh-01'')) (Some (str ''en''))
       = (200, ResponseBody (str ''Did you mean: '' @ [34] @ str ''hello'' @ [34, 63]))"
    by (rule order [THEN conjunct2, THEN conjunct2, THEN conjunct1, THEN mp])
      (use hello quiet found in blast)
  have no_match: "db_ok quiet_env
      \<and> fuse_search quiet_env (map fst [(str ''hello'', str ''hi'')]) (str ''bye'') = Inr []"
    by (simp add: env_defs str_def)
  have 4: "nash quiet_env 0 key_file [(str ''hello'', str ''hi'')] (Some (str ''bye''))
        (Some (str ''nsh-01'')) (Some (str ''en''))
       = (200, ResponseBody
           (str ''I'' @ [39] @ str ''m not sure how to respond to that. Ask something else.''))"
    by (rule order [THEN conjunct2, THEN conjunct2, THEN conjunct2, THEN mp])
      (use bye quiet no_match in blast)
  from london 1 2 3 4 show ?thesis by blast
qed

text \<open>
  Where the statement fails: the matcher returns an answer, the empty string (the answer
  that \<^verbatim>\<open>GET /teach\<close> accepts with \<^verbatim>\<open>answer=\<close>), and the response is not that answer
  but the "did you mean" of the third stage.
\<close>

theorem nash_empty_answer_counterexample:
  "process (answering_env []) (str ''en'') (str ''hello'') = Inr (Some [])
   \<and> nash (answering_env []) 0 key_file [(str ''hello'', [])] (Some (str ''hello''))
        (Some (str ''nsh-01'')) (Some (str ''en''))
       = (200, ResponseBody (str ''Did you mean: '' @ [34] @ str ''hello'' @ [34, 63]))
   \<and> nash (answering_env []) 0 key_file [(str ''hello'', [])] (Some (str ''hello''))
        (Some (str ''nsh-01'')) (Some (str ''en''))
       \<noteq> (200, ResponseBody [])"
  by (simp add: route_defs env_defs key_defs string_defs)

text \<open>
  The time stage when the zone lookup returns \<^verbatim>\<open>null\<close>: \<^verbatim>\<open>generateTimeResponse\<close>
  returns \<^verbatim>\<open>Invalid timezone.\<close>; when the matcher has no answer, that message is the
  response, with status 200. And for every prompt that matches the time pattern, the
  response does not depend on the table, on whether the storage works, or on the search:
  the fuzzy stage and the default are not reached.
\<close>

lemma null_zone_short_circuits:
  "timezoneMatch prompt = Some grp \<Longrightarrow> zone_lookup e (spaces_to_underscores grp) = Inr False \<Longrightarrow>
     generateTimeResponse e (spaces_to_underscores grp) = Inr (str ''Invalid timezone.'')
   \<and> (validateApiKey now store apiKey
        \<and> (process e language prompt = Inr None \<or> process e language prompt = Inr (Some [])) \<longrightarrow>
      nash e now store rows (Some prompt) (Some apiKey) (Some language)
        = (200, ResponseBody (str ''Invalid timezone.'')))
   \<and> nash (e\<lparr>db_ok := ok, fuse_search := search\<rparr>) now store rows' (Some prompt) apiKey_q language_q
        = nash e now store rows (Some prompt) apiKey_q language_q"
proof -
  assume m: "timezoneMatch prompt = Some grp"
    and z: "zone_lookup e (spaces_to_underscores grp) = Inr False"
  from z have inv: "generateTimeResponse e (spaces_to_underscores grp) = Inr (str ''Invalid timezone.'')"
    by (simp add: generateTimeResponse_def)
  have direct: "nash e now store rows (Some prompt) (Some apiKey) (Some language)
        = (200, ResponseBody (str ''Invalid timezone.''))"
    if "validateApiKey now store apiKey"
      "process e language prompt = Inr None \<or> process e language prompt = Inr (Some [])"
    using that time_or_fuzzy_matched [OF m inv, of rows]
    by (auto simp: nash_def resolve_def)
  have indep: "nash (e\<lparr>db_ok := ok, fuse_search := search\<rparr>) now store rows' (Some prompt) apiKey_q language_q
        = nash e now store rows (Some prompt) apiKey_q language_q"
    by (cases apiKey_q; cases language_q)
      (simp_all add: nash_def
        resolve_matched_independent [OF m, where e = e and ok = ok and search = search
          and rows' = rows' and rows = rows])
  from inv direct indep show ?thesis by blast
qed

text \<open>
  The time stage when the zone lookup raises: with a valid key and no answer of the
  matcher, the \<^verbatim>\<open>catch\<close> of lines 115 and 116 answers 500.
\<close>

lemma raising_zone_answers_500:
  "validateApiKey now store apiKey \<Longrightarrow>
   process e language prompt = Inr None \<or> process e language prompt = Inr (Some []) \<Longrightarrow>
   timezoneMatch prompt = Some grp \<Longrightarrow> zone_lookup e (spaces_to_underscores grp) = Inl err \<Longrightarrow>
   nash e now store rows (Some prompt) (Some apiKey) (Some language)
     = (500, MessageBody (str ''Error retrieving responses''))"
  by (auto simp: nash_def resolve_def time_or_fuzzy_def generateTimeResponse_def)

text \<open>
  C3, at the request where the code departs from it. The prompt
  \<^verbatim>\<open>current time in constructor\<close> matches the time pattern and names a zone that no time
  zone database has. The zone lookup raises for this name, nothing in
  \<^verbatim>\<open>generateTimeResponse\<close> catches the exception, and the handler answers 500 with
  \<^verbatim>\<open>Error retrieving responses\<close> instead of 200 with \<^verbatim>\<open>Invalid timezone.\<close>, which is
  what the same handler answers for \<^verbatim>\<open>current time in Nowhereland\<close>.
\<close>

theorem constructor_zone_answers_500:
  "timezoneMatch (str ''current time in constructor'') = Some (str ''constructor'')
   \<and> zone_lookup raising_zone_env (spaces_to_underscores (str ''constructor'')) = Inl TypeError
   \<and> generateTimeResponse raising_zone_env (spaces_to_underscores (str ''constructor'')) = Inl TypeError
   \<and> nash raising_zone_env 0 key_file [] (Some (str ''current time in constructor''))
        (Some (str ''nsh-01'')) None
       = (500, MessageBody (str ''Error retrieving responses''))
   \<and> nash raising_zone_env 0 key_file [] (Some (str ''current time in Nowhereland''))
        (Some (str ''nsh-01'')) None
       = (200, ResponseBody (str ''Invalid timezone.''))"
  by (simp add: route_defs raising_zone_env_def env_defs key_defs string_defs)

text \<open>
  C8, as the code has it. The handler puts \<^verbatim>\<open>en\<close> in the place of the language only
  when the request has no \<^verbatim>\<open>language\<close> parameter: such a request is resolved exactly as
  one with \<^verbatim>\<open>language=en\<close>. A language that is supplied, supported or not, is handed to
  the matcher as it is: the response depends on the matcher only through what it returns
  for that language and the prompt; a non-empty answer of the matcher for that language is
  the response; the request is resolved as with \<^verbatim>\<open>en\<close> whenever the matcher returns for
  that language what it returns for \<^verbatim>\<open>en\<close>; and the request is never refused with a 400
  for its language.
\<close>

theorem nash_language_default:
  "nash e now store rows prompt_q apiKey_q None
     = nash e now store rows prompt_q apiKey_q (Some (str ''en''))
   \<and> (matcher language prompt = process e language prompt \<longrightarrow>
        nash (e\<lparr>process := matcher\<rparr>) now store rows (Some prompt) apiKey_q (Some language)
          = nash e now store rows (Some prompt) apiKey_q (Some language))
   \<and> (validateApiKey now store apiKey
        \<and> process e language prompt = Inr (Some answer) \<and> answer \<noteq> [] \<longrightarrow>
        nash e now store rows (Some prompt) (Some apiKey) (Some language)
          = (200, ResponseBody answer))
   \<and> (process e language prompt = process e (str ''en'') prompt \<longrightarrow>
        nash e now store rows (Some prompt) apiKey_q (Some language)
          = nash e now store rows (Some prompt) apiKey_q (Some (str ''en'')))
   \<and> fst (nash e now store rows (Some prompt) (Some apiKey) (Some language)) \<noteq> 400"
proof -
  have a: "nash e now store rows prompt_q apiKey_q None
             = nash e now store rows prompt_q apiKey_q (Some (str ''en''))"
    by (cases prompt_q; cases apiKey_q) (simp_all add: nash_def)
  have only: "nash (e\<lparr>process := matcher\<rparr>) now store rows (Some prompt) apiKey_q (Some language)
          = nash e now store rows (Some prompt) apiKey_q (Some language)"
    if "matcher language prompt = process e language prompt"
    using resolve_process [of matcher language prompt e rows, OF that]
    by (cases apiKey_q) (simp_all add: nash_def)
  have answer: "nash e now store rows (Some prompt) (Some apiKey) (Some language)
          = (200, ResponseBody answer)"
    if "validateApiKey now store apiKey" "process e language prompt = Inr (Some answer)" "answer \<noteq> []"
    using that by (simp add: nash_def resolve_def)
  have b: "nash e now store rows (Some prompt) apiKey_q (Some language)
          = nash e now store rows (Some prompt) apiKey_q (Some (str ''en''))"
    if "process e language prompt = process e (str ''en'') prompt"
    using that by (cases apiKey_q) (simp_all add: nash_def resolve_def)
  have c: "fst (nash e now store rows (Some prompt) (Some apiKey) (Some language)) \<noteq> 400"
    using nash_status [of e now store rows prompt apiKey "Some language"] by auto
  from a only answer b c show ?thesis by blast
qed

text \<open>
  The language \<^verbatim>\<open>de\<close>, which is not one of the four. A matcher that answers
  \<^verbatim>\<open>Hallo\<close> for \<^verbatim>\<open>de\<close> and \<^verbatim>\<open>Hi there\<close> for \<^verbatim>\<open>en\<close>: the request with
  \<^verbatim>\<open>language=de\<close> gets \<^verbatim>\<open>Hallo\<close>, not the answer for \<^verbatim>\<open>en\<close>. A matcher that answers
  alike in every language: the request with \<^verbatim>\<open>language=de\<close> gets the response of the
  request with \<^verbatim>\<open>language=en\<close>, and so does the request without a language.
\<close>

theorem nash_language_default_witness:
  "str ''de'' \<notin> set languages
   \<and> nash (quiet_env\<lparr>process := (\<lambda>language prompt.
          if language = str ''de'' then Inr (Some (str ''Hallo'')) else Inr (Some (str ''Hi there'')))\<rparr>)
        0 key_file [] (Some (str ''hello'')) (Some (str ''nsh-01'')) (Some (str ''de''))
       = (200, ResponseBody (str ''Hallo''))
   \<and> nash (answering_env (str ''Hi there'')) 0 key_file [] (Some (str ''hello''))
        (Some (str ''nsh-01'')) (Some (str ''de''))
       = nash (answering_env (str ''Hi there'')) 0 key_file [] (Some (str ''hello''))
        (Some (str ''nsh-01'')) (Some (str ''en''))
   \<and> nash (answering_env (str ''Hi there'')) 0 key_file [] (Some (str ''hello''))
        (Some (str ''nsh-01'')) None
       = (200, ResponseBody (str ''Hi there''))"
proof -
  let ?german = "quiet_env\<lparr>process := (\<lambda>language prompt.
          if language = str ''de'' then Inr (Some (str ''Hallo'')) else Inr (Some (str ''Hi there'')))\<rparr>"
  have de: "str ''de'' \<notin> set languages"
    by (simp add: languages_def str_def)
  have key: "validateApiKey 0 key_file (str ''nsh-01'')"
    by (simp add: key_defs)
  have hallo: "process ?german (str ''de'') (str ''hello'') = Inr (Some (str ''Hallo''))
      \<and> str ''Hallo'' \<noteq> []"
    by (simp add: str_def)
  note german = nash_language_default [where e = ?german and now = 0 and store = key_file
      and rows = "[]" and apiKey = "str ''nsh-01''" and language = "str ''de''"
      and prompt = "str ''hello''" and answer = "str ''Hallo''"]
  from german key hallo
  have g: "nash ?german 0 key_file [] (Some (str ''hello'')) (Some (str ''nsh-01'')) (Some (str ''de''))
       = (200, ResponseBody (str ''Hallo''))"
    by blast
  have same: "process (answering_env (str ''Hi there'')) (str ''de'') (str ''hello'')
     = process (answering_env (str ''Hi there'')) (str ''en'') (str ''hello'')"
    by (simp add: env_defs)
  note th = nash_language_default [where e = "answering_env (str ''Hi there'')" and now = 0
      and store = key_file and rows = "[]" and prompt_q = "Some (str ''hello'')"
      and apiKey_q = "Some (str ''nsh-01'')" and language = "str ''de''" and prompt = "str ''hello''"]
  from th same
  have a: "nash (answering_env (str ''Hi there'')) 0 key_file [] (Some (str ''hello''))
        (Some (str ''nsh-01'')) (Some (str ''de''))
       = nash (answering_env (str ''Hi there'')) 0 key_file [] (Some (str ''hello''))
        (Some (str ''nsh-01'')) (Some (str ''en''))"
    by blast
  have "nash (answering_env (str ''Hi there'')) 0 key_file [] (Some (str ''hello''))
        (Some (str ''nsh-01'')) (Some (str ''en'')) = (200, ResponseBody (str ''Hi there''))"
    by (simp add: route_defs env_defs key_defs str_def)
  with th
  have b: "nash (answering_env (str ''Hi there'')) 0 key_file [] (Some (str ''hello''))
        (Some (str ''nsh-01'')) None = (200, ResponseBody (str ''Hi there''))"
    by simp
  from de g a b show ?thesis by blast
qed

text \<open>
  Where the statement fails: a matcher that has an answer for \<^verbatim>\<open>en\<close> and none for a
  language it does not know. The language \<^verbatim>\<open>de\<close> is not one of the four, and the
  request with \<^verbatim>\<open>language=de\<close> gets the default message where the request with
  \<^verbatim>\<open>language=en\<close> gets the answer.
\<close>

theorem nash_unknown_language_counterexample:
  "str ''de'' \<notin> set languages
   \<and> nash english_env 0 key_file [] (Some (str ''hello'')) (Some (str ''nsh-01'')) (Some (str ''de''))
       = (200, ResponseBody
           (str ''I'' @ [39] @ str ''m not sure how to respond to that. Ask something else.''))
   \<and> nash english_env 0 key_file [] (Some (str ''hello'')) (Some (str ''nsh-01'')) (Some (str ''en''))
       = (200, ResponseBody (str ''Hi there''))"
  by (simp add: route_defs english_env_def env_defs key_defs string_defs languages_def)

section \<open>Teaching and training\<close>

text \<open>
  C2. While the storage works: teaching a pair that the table already holds inserts
  nothing, registers nothing and answers 200 with the "already exists" message; after
  teaching the same pair twice, starting from a table without duplicate rows, the second
  response is that message, the second call changes neither the table nor the manager,
  and the table holds the pair exactly once. No call of \<^verbatim>\<open>GET /teach\<close>, whatever its
  parameters and whatever fails, makes a table without duplicate rows into one with
  duplicates.
\<close>

theorem teach_dedup_idempotent:
  "db_ok e \<Longrightarrow> distinct rows \<Longrightarrow>
   teach e rows manager (Some question) (Some answer) = (r1, rows1, manager1) \<Longrightarrow>
   teach e rows1 manager1 (Some question) (Some answer) = (r2, rows2, manager2) \<Longrightarrow>
     ((question, answer) \<in> set rows \<longrightarrow>
        r1 = (200, MessageBody (str ''This answer already exists for the question''))
        \<and> rows1 = rows \<and> manager1 = manager)
   \<and> r2 = (200, MessageBody (str ''This answer already exists for the question''))
   \<and> rows2 = rows1 \<and> manager2 = manager1
   \<and> count_list rows2 (question, answer) = 1
   \<and> distinct rows2
   \<and> distinct (fst (snd (teach e' rows manager' question_q answer_q)))"
proof -
  assume ok: "db_ok e" and d: "distinct rows"
    and t1: "teach e rows manager (Some question) (Some answer) = (r1, rows1, manager1)"
    and t2: "teach e rows1 manager1 (Some question) (Some answer) = (r2, rows2, manager2)"
  have first: "r1 = (200, MessageBody (str ''This answer already exists for the question''))
        \<and> rows1 = rows \<and> manager1 = manager" if "(question, answer) \<in> set rows"
    using teach_duplicate [OF ok that, of manager] t1 by simp
  have in1: "(question, answer) \<in> set rows1"
    using teach_stores [OF ok, of question answer rows manager] t1 by simp
  have d1: "distinct rows1"
    using teach_distinct [OF d, of e manager "Some question" "Some answer"] t1 by simp
  have second: "r2 = (200, MessageBody (str ''This answer already exists for the question''))
        \<and> rows2 = rows1 \<and> manager2 = manager1"
    using teach_duplicate [OF ok in1, of manager1] t2 by simp
  have cnt: "count_list rows2 (question, answer) = 1"
    using second count_list_distinct [OF d1 in1] by simp
  from first second cnt d1 teach_distinct [OF d, of e' manager' question_q answer_q]
  show ?thesis by simp
qed

text \<open>
  Teaching \<^verbatim>\<open>hello\<close> with the answer \<^verbatim>\<open>hi\<close> twice, from an empty table: the first call
  trains, the second finds the pair, and the table holds one row.
\<close>

theorem teach_dedup_idempotent_witness:
  "fst (teach quiet_env [] [] (Some (str ''hello'')) (Some (str ''hi'')))
     = (200, MessageBody (str ''Training successful''))
   \<and> fst (snd (teach quiet_env [] [] (Some (str ''hello'')) (Some (str ''hi''))))
     = [(str ''hello'', str ''hi'')]
   \<and> fst (teach quiet_env
        (fst (snd (teach quiet_env [] [] (Some (str ''hello'')) (Some (str ''hi'')))))
        (snd (snd (teach quiet_env [] [] (Some (str ''hello'')) (Some (str ''hi'')))))
        (Some (str ''hello'')) (Some (str ''hi'')))
     = (200, MessageBody (str ''This answer already exists for the question''))
   \<and> fst (snd (teach quiet_env
        (fst (snd (teach quiet_env [] [] (Some (str ''hello'')) (Some (str ''hi'')))))
        (snd (snd (teach quiet_env [] [] (Some (str ''hello'')) (Some (str ''hi'')))))
        (Some (str ''hello'')) (Some (str ''hi''))))
     = [(str ''hello'', str ''hi'')]"
proof -
  let ?t1 = "teach quiet_env [] [] (Some (str ''hello'')) (Some (str ''hi''))"
  let ?t2 = "teach quiet_env (fst (snd ?t1)) (snd (snd ?t1)) (Some (str ''hello'')) (Some (str ''hi''))"
  have ok: "db_ok quiet_env" by (simp add: env_defs)
  have d: "distinct ([] :: row list)" by simp
  have t1: "?t1 = (fst ?t1, fst (snd ?t1), snd (snd ?t1))" by simp
  have t2: "?t2 = (fst ?t2, fst (snd ?t2), snd (snd ?t2))" by simp
  note th = teach_dedup_idempotent [OF ok d t1 t2]
  have r1: "fst ?t1 = (200, MessageBody (str ''Training successful''))"
    by (simp add: teach_def env_defs register_pair_def languages_def)
  have rows1: "fst (snd ?t1) = [(str ''hello'', str ''hi'')]"
    by (simp add: teach_def env_defs register_pair_def languages_def)
  from th have r2: "fst ?t2 = (200, MessageBody (str ''This answer already exists for the question''))"
    by blast
  from th have "fst (snd ?t2) = fst (snd ?t1)"
    by blast
  with rows1 have rows2: "fst (snd ?t2) = [(str ''hello'', str ''hi'')]"
    by simp
  from r1 rows1 r2 rows2 show ?thesis by blast
qed

text \<open>
  C9. When the storage works, the pair is new and one of the calls on the manager that
  follow the insert raises (a registration, \<^verbatim>\<open>train()\<close> or \<^verbatim>\<open>save()\<close>), the response
  is 500 with the training-error message, and the table holds the new pair all the same:
  it is the old table with the pair appended.
\<close>

theorem teach_not_atomic:
  "db_ok e \<Longrightarrow> (question, answer) \<notin> set rows \<Longrightarrow>
   c \<in> set (register_pair question answer @ [Train, Save]) \<Longrightarrow> throws e c \<Longrightarrow>
     fst (teach e rows manager (Some question) (Some answer))
       = (500, MessageBody (str ''Error training the chatbot''))
   \<and> fst (snd (teach e rows manager (Some question) (Some answer))) = rows @ [(question, answer)]
   \<and> (question, answer) \<in> set (fst (snd (teach e rows manager (Some question) (Some answer))))"
proof -
  assume ok: "db_ok e" and new: "(question, answer) \<notin> set rows"
    and c: "c \<in> set (register_pair question answer @ [Train, Save])" "throws e c"
  from c have "snd (run_calls (throws e) (register_pair question answer @ [Train, Save]))"
    unfolding run_calls_raised by blast
  with ok new show ?thesis
    by (auto simp: teach_def filter_empty_conv split: prod.splits)
qed

text \<open>
  A manager whose \<^verbatim>\<open>train()\<close> rejects: the registrations are made, the response is 500
  and the row is in the table.
\<close>

theorem teach_not_atomic_witness:
  "throws failing_train_env Train
   \<and> teach failing_train_env [] [] (Some (str ''hello'')) (Some (str ''hi''))
       = ((500, MessageBody (str ''Error training the chatbot'')),
          [(str ''hello'', str ''hi'')],
          register_pair (str ''hello'') (str ''hi''))"
proof -
  have ok: "db_ok failing_train_env" by (simp add: failing_train_env_def env_defs)
  have new: "(str ''hello'', str ''hi'') \<notin> set ([] :: row list)" by simp
  have c: "Train \<in> set (register_pair (str ''hello'') (str ''hi'') @ [Train, Save])" by simp
  have thr: "throws failing_train_env Train" by (simp add: failing_train_env_def env_defs)
  note th = teach_not_atomic [OF ok new c thr, of "[]"]
  have log: "snd (snd (teach failing_train_env [] [] (Some (str ''hello'')) (Some (str ''hi''))))
      = register_pair (str ''hello'') (str ''hi'')"
    by (simp add: teach_def failing_train_env_def env_defs register_pair_def languages_def)
  from th log have "teach failing_train_env [] [] (Some (str ''hello'')) (Some (str ''hi''))
       = ((500, MessageBody (str ''Error training the chatbot'')),
          [(str ''hello'', str ''hi'')],
          register_pair (str ''hello'') (str ''hi''))"
    by (simp add: prod_eq_iff)
  with thr show ?thesis by blast
qed




end
